theory Spec2Isabelle
  imports Main
begin

section \<open>Values of the host language\<close>

text \<open>
  The component \<^verbatim>\<open>MCPProvider\<close> of \<^verbatim>\<open>mcp.context.tsx\<close> passes untyped
  JavaScript values around (\<^verbatim>\<open>any\<close>, \<^verbatim>\<open>unknown\<close>): request parameters, the content
  of the elicitation form, schemas. They are modelled by one datatype of values.
\<close>

datatype jsval =
    JUndefined
  | JNull
  | JBool bool
  | JNumber int
  | JString string
  | JArray "jsval list"
  | JObject "(string \<times> jsval) list"

text \<open>A thrown value: \<^verbatim>\<open>new Error(msg)\<close>, or whatever a collaborator throws.\<close>

datatype error = Error string

text \<open>The three states of a JavaScript promise.\<close>

datatype 'a promise = Pending | Fulfilled 'a | Rejected error

text \<open>What a call of a synchronous or \<^verbatim>\<open>async\<close> function body does: throw, or return.\<close>

datatype 'a returned = Throws error | Returns 'a

datatype result_schema =
    ListToolsResultSchema
  | ListPromptsResultSchema
  | GetPromptResultSchema
  | ListResourcesResultSchema
  | ReadResourceResultSchema
  | CallToolResultSchema

datatype handler_schema =
    LoggingMessageNotificationSchema
  | ResourceListChangedNotificationSchema
  | ElicitRequestSchema

text \<open>One call \<^verbatim>\<open>client.request({ method, params }, schema)\<close>, on the client object
  \<open>on_client\<close>; the field \<open>rpc_method\<close> is the \<^verbatim>\<open>method\<close> of the request.\<close>

record request_call =
  on_client :: nat
  rpc_method :: string
  params :: jsval
  resultSchema :: result_schema

datatype console_entry =
    ConsoleError string error
  | ConsoleWarn string error
  | ConsoleLog string jsval

text \<open>
  The elicitation request handed to the handler. The modal reads
  \<^verbatim>\<open>request.params?.message\<close> and \<^verbatim>\<open>request.params?.requestedSchema\<close>; a missing
  field is \<open>None\<close>.
\<close>

record elicit_request =
  message :: "string option"
  requestedSchema :: "jsval option"

section \<open>State of the provider\<close>

text \<open>
  The first six fields are the \<^verbatim>\<open>useState\<close> cells of \<^verbatim>\<open>MCPProvider\<close>. The
  resolver cell holds a closure over the \<^verbatim>\<open>resolve\<close> function of one promise; it is
  represented by the index of that promise in \<open>promises\<close>.

  The remaining fields record what the component does to its collaborators:
  how many \<^verbatim>\<open>Client\<close> and \<^verbatim>\<open>StreamableHTTPClientTransport\<close> objects were
  constructed (objects are named by their construction index), the handlers registered
  on clients, the transports on which \<^verbatim>\<open>close()\<close> was called, the calls of
  \<^verbatim>\<open>client.request\<close>, the promises created by the elicitation handler, the values
  the elicitation handler returned to the client (which the client sends to the server
  as the response), and the console. The last field belongs to the client library: the
  pairs of a client and its transport that the library holds as connected. Nothing of
  \<^verbatim>\<open>mcp.context.tsx\<close> reads or writes it.
\<close>

record mcp_world =
  client :: "nat option"
  transport :: "nat option"
  isConnected :: bool
  elicitationRequest :: "elicit_request option"
  elicitationResolver :: "nat option"
  sessionId :: "string option"
  clients_created :: nat
  transports_created :: nat
  handlers :: "(nat \<times> handler_schema) list"
  closes :: "nat list"
  requests :: "request_call list"
  promises :: "jsval promise list"
  responses :: "(nat \<times> jsval) list"
  console :: "console_entry list"
  open_links :: "(nat \<times> nat) list"

text \<open>The initial values of the \<^verbatim>\<open>useState\<close> cells, before anything has happened.\<close>

definition initial_world :: mcp_world where
  "initial_world =
     \<lparr> client = None, transport = None, isConnected = False,
       elicitationRequest = None, elicitationResolver = None, sessionId = None,
       clients_created = 0, transports_created = 0, handlers = [], closes = [],
       requests = [], promises = [], responses = [], console = [], open_links = [] \<rparr>"

section \<open>connect\<close>

text \<open>
  \<^verbatim>\<open>connect\<close> is an \<^verbatim>\<open>async\<close> function with one suspension point,
  \<^verbatim>\<open>await newClient.connect(newTransport)\<close>. \<open>connect_begin\<close> runs it up to that
  point: it gives \<open>Returned\<close> when the function has returned at
  \<^verbatim>\<open>if (client) return\<close> (its promise is fulfilled with \<^verbatim>\<open>undefined\<close>), and
  \<open>Awaiting_handshake c t\<close> when it is suspended in the handshake with its local variables
  \<^verbatim>\<open>newClient\<close> = \<open>c\<close> and \<^verbatim>\<open>newTransport\<close> = \<open>t\<close>.
  \<open>connect_resume\<close> runs the rest, given how the handshake ended: \<open>Inl e\<close> when it threw
  \<open>e\<close>, \<open>Inr sid\<close> when it succeeded and \<^verbatim>\<open>newTransport.sessionId\<close> reads \<open>sid\<close>.
  Its first component is the state of the promise that \<^verbatim>\<open>connect()\<close> returned.

  \<^verbatim>\<open>connect\<close> is created anew in every render and closes over the value that the
  \<^verbatim>\<open>client\<close> cell has in that render. That value is the first argument,
  \<open>rendered_client\<close>; the test \<^verbatim>\<open>if (client)\<close> reads it, not the cell of the
  world the call is made in. A call through the latest render of \<open>w\<close> is
  \<open>connect_begin (client w) w\<close>. The same holds for \<^verbatim>\<open>disconnect\<close> with the
  \<^verbatim>\<open>transport\<close> cell and for the six protocol operations with the
  \<^verbatim>\<open>client\<close> cell.
\<close>

datatype connect_step = Returned | Awaiting_handshake nat nat

definition connect_begin :: "nat option \<Rightarrow> mcp_world \<Rightarrow> connect_step \<times> mcp_world" where
  "connect_begin rendered_client w =
     (if rendered_client \<noteq> None then (Returned, w)
      else
        let c = clients_created w;
            t = transports_created w
        in (Awaiting_handshake c t,
            w\<lparr> clients_created := Suc c,
               transports_created := Suc t,
               handlers := handlers w @
                 [(c, LoggingMessageNotificationSchema),
                  (c, ResourceListChangedNotificationSchema),
                  (c, ElicitRequestSchema)] \<rparr>))"

definition connect_resume ::
  "nat \<Rightarrow> nat \<Rightarrow> error + string option \<Rightarrow> mcp_world \<Rightarrow> unit promise \<times> mcp_world" where
  "connect_resume newClient newTransport handshake w =
     (case handshake of
        Inr sid \<Rightarrow>
          (Fulfilled (),
           w\<lparr> client := Some newClient, transport := Some newTransport,
              isConnected := True, sessionId := sid \<rparr>)
      | Inl e \<Rightarrow>
          (Fulfilled (),
           w\<lparr> console := console w @ [ConsoleError ''Failed to connect to MCP server:'' e],
              client := None, transport := None, isConnected := False \<rparr>))"

text \<open>
  \<open>n\<close> calls in a row of the \<^verbatim>\<open>connect\<close> of one render, the one that saw
  \<open>rendered_client\<close>.
\<close>

fun connect_calls :: "nat option \<Rightarrow> nat \<Rightarrow> mcp_world \<Rightarrow> mcp_world" where
  "connect_calls rendered_client 0 w = w"
| "connect_calls rendered_client (Suc n) w =
     connect_calls rendered_client n (snd (connect_begin rendered_client w))"

text \<open>The callbacks installed on the new objects.\<close>

definition client_onerror :: "error \<Rightarrow> mcp_world \<Rightarrow> mcp_world" where
  "client_onerror e w = w\<lparr> console := console w @ [ConsoleError ''MCP Client error:'' e] \<rparr>"

definition transport_onclose :: "mcp_world \<Rightarrow> mcp_world" where
  "transport_onclose w = w\<lparr> isConnected := False, sessionId := None \<rparr>"

definition transport_onerror :: "error \<Rightarrow> mcp_world \<Rightarrow> mcp_world" where
  "transport_onerror e w = w\<lparr> console := console w @ [ConsoleError ''Transport error'' e] \<rparr>"

section \<open>Notification handlers\<close>

definition logging_handler :: "jsval \<Rightarrow> mcp_world \<Rightarrow> mcp_world" where
  "logging_handler notification_params w =
     w\<lparr> console := console w @ [ConsoleLog ''MCP notification:'' notification_params] \<rparr>"

text \<open>
  \<^verbatim>\<open>(res as any).resources?.length ?? 0\<close>: reading a property of \<^verbatim>\<open>null\<close> or
  \<^verbatim>\<open>undefined\<close> throws a TypeError; \<^verbatim>\<open>?.\<close> stops at a null or undefined
  \<^verbatim>\<open>resources\<close>, and \<^verbatim>\<open>??\<close> replaces a null or undefined result by 0.
\<close>

fun js_length :: "jsval \<Rightarrow> jsval" where
  "js_length (JArray xs) = JNumber (int (length xs))"
| "js_length (JString s) = JNumber (int (length s))"
| "js_length (JObject fs) =
     (case map_of fs ''length'' of
        None \<Rightarrow> JUndefined
      | Some v \<Rightarrow> v)"
| "js_length v = JUndefined"

definition nullish_or :: "jsval \<Rightarrow> jsval \<Rightarrow> jsval" where
  "nullish_or v d = (if v = JUndefined \<or> v = JNull then d else v)"

fun resources_count :: "jsval \<Rightarrow> error + jsval" where
  "resources_count JUndefined = Inl (Error ''TypeError'')"
| "resources_count JNull = Inl (Error ''TypeError'')"
| "resources_count (JObject fs) =
     (case map_of fs ''resources'' of
        None \<Rightarrow> Inr (JNumber 0)
      | Some r \<Rightarrow> Inr (nullish_or (js_length r) (JNumber 0)))"
| "resources_count v = Inr (JNumber 0)"

text \<open>
  The handler of the resource-list-changed notification, registered on client \<open>c\<close>. It
  has one suspension point, the \<^verbatim>\<open>await\<close> of \<^verbatim>\<open>newClient.request\<close>; \<open>outcome\<close> is
  how that request ended (\<open>Inl e\<close>: it rejected with \<open>e\<close>). The first component is the
  state of the promise the handler returned.
\<close>

definition resourceListChanged_handler ::
  "nat \<Rightarrow> error + jsval \<Rightarrow> mcp_world \<Rightarrow> unit promise \<times> mcp_world" where
  "resourceListChanged_handler c outcome w =
     (let w1 = w\<lparr> requests := requests w @
                  [\<lparr> on_client = c, rpc_method = ''resources/list'', params = JObject [],
                     resultSchema = ListResourcesResultSchema \<rparr>] \<rparr>;
          attempt = (case outcome of
                       Inl e \<Rightarrow> Inl e
                     | Inr res \<Rightarrow> resources_count res)
      in case attempt of
           Inr n \<Rightarrow>
             (Fulfilled (),
              w1\<lparr> console := console w1 @ [ConsoleLog ''Resources changed, count:'' n] \<rparr>)
         | Inl e \<Rightarrow>
             (Fulfilled (),
              w1\<lparr> console := console w1 @
                    [ConsoleWarn ''Failed to list resources after notification'' e] \<rparr>))"

section \<open>The elicitation handler and its resolver\<close>

text \<open>
  The request handler returns \<^verbatim>\<open>await new Promise((resolve) => ...)\<close>: it creates a
  promise, stores the request and a closure over \<^verbatim>\<open>resolve\<close> in the two state cells,
  and stays suspended until the promise settles. The result is the new promise.
\<close>

definition elicit_handler :: "elicit_request \<Rightarrow> mcp_world \<Rightarrow> nat \<times> mcp_world" where
  "elicit_handler request w =
     (let p = length (promises w)
      in (p, w\<lparr> promises := promises w @ [Pending],
                elicitationRequest := Some request,
                elicitationResolver := Some p \<rparr>))"

text \<open>
  \<^verbatim>\<open>resolve(res)\<close> on promise \<open>p\<close>: a pending promise is fulfilled, the suspended
  handler returns \<open>res\<close> and the client sends it as the response; on a settled promise
  \<^verbatim>\<open>resolve\<close> does nothing.
\<close>

definition resolve_promise :: "nat \<Rightarrow> jsval \<Rightarrow> mcp_world \<Rightarrow> mcp_world" where
  "resolve_promise p res w =
     (if p < length (promises w) \<and> promises w ! p = Pending
      then w\<lparr> promises := (promises w)[p := Fulfilled res],
              responses := responses w @ [(p, res)] \<rparr>
      else w)"

text \<open>The closure stored in the resolver cell by the handler that created promise \<open>p\<close>.\<close>

definition resolver_fn :: "nat \<Rightarrow> jsval \<Rightarrow> mcp_world \<Rightarrow> mcp_world" where
  "resolver_fn p res w =
     (resolve_promise p res w)\<lparr> elicitationRequest := None, elicitationResolver := None \<rparr>"

section \<open>disconnect\<close>

text \<open>
  How \<^verbatim>\<open>transport.close()\<close> ended: whether the transport called its
  \<^verbatim>\<open>onclose\<close> callback while closing, and the error it threw, if any. Both are
  decided by the transport, which is a parameter here.
\<close>

record close_result =
  fires_onclose :: bool
  close_throws :: "error option"

text \<open>
  \<^verbatim>\<open>disconnect\<close> closes over the \<^verbatim>\<open>transport\<close> cell of its render,
  \<open>rendered_transport\<close>. It has one suspension point,
  \<^verbatim>\<open>await transport.close()\<close>. The three setters are inside the \<^verbatim>\<open>try\<close>
  block, after the \<^verbatim>\<open>await\<close>.
\<close>

definition disconnect ::
  "nat option \<Rightarrow> close_result \<Rightarrow> mcp_world \<Rightarrow> unit promise \<times> mcp_world" where
  "disconnect rendered_transport cr w =
     (case rendered_transport of
        None \<Rightarrow> (Fulfilled (), w)
      | Some t \<Rightarrow>
          (let w1 = (if fires_onclose cr then transport_onclose w else w)
                      \<lparr> closes := closes w @ [t] \<rparr>
           in case close_throws cr of
                None \<Rightarrow>
                  (Fulfilled (),
                   w1\<lparr> client := None, transport := None, isConnected := False \<rparr>)
              | Some e \<Rightarrow>
                  (Fulfilled (),
                   w1\<lparr> console := console w1 @
                         [ConsoleError ''Error disconnecting from MCP server:'' e] \<rparr>)))"

section \<open>The effect\<close>

text \<open>
  \<^verbatim>\<open>useEffect(() => { connect(); return () => { disconnect(); }; }, [])\<close>: the
  dependency list is empty, so the effect and its cleanup keep the \<^verbatim>\<open>connect\<close> and
  the \<^verbatim>\<open>disconnect\<close> of the first render, whose cells hold their initial values.
\<close>

definition effect_mount :: "mcp_world \<Rightarrow> connect_step \<times> mcp_world" where
  "effect_mount w = connect_begin (client initial_world) w"

definition effect_cleanup :: "close_result \<Rightarrow> mcp_world \<Rightarrow> unit promise \<times> mcp_world" where
  "effect_cleanup cr w = disconnect (transport initial_world) cr w"

section \<open>Protocol operations\<close>

text \<open>
  What an operation of the context hands back: a plain value, or the promise that
  \<^verbatim>\<open>client.request\<close> returned for a request. How that promise settles is decided by
  the client library.
\<close>

datatype op_value = Value jsval | ResultOf request_call

definition client_request ::
  "nat \<Rightarrow> string \<Rightarrow> jsval \<Rightarrow> result_schema \<Rightarrow> mcp_world \<Rightarrow> op_value returned \<times> mcp_world" where
  "client_request c m ps sch w =
     (let r = \<lparr> on_client = c, rpc_method = m, params = ps, resultSchema = sch \<rparr>
      in (Returns (ResultOf r), w\<lparr> requests := requests w @ [r] \<rparr>))"

text \<open>
  Each operation closes over the \<^verbatim>\<open>client\<close> cell of its render,
  \<open>rendered_client\<close>, and tests that value.
\<close>

definition listTools :: "nat option \<Rightarrow> mcp_world \<Rightarrow> op_value returned \<times> mcp_world" where
  "listTools rendered_client w =
     (case rendered_client of
        None \<Rightarrow> (Throws (Error ''Not connected''), w)
      | Some c \<Rightarrow> client_request c ''tools/list'' (JObject []) ListToolsResultSchema w)"

definition listPrompts :: "nat option \<Rightarrow> mcp_world \<Rightarrow> op_value returned \<times> mcp_world" where
  "listPrompts rendered_client w =
     (case rendered_client of
        None \<Rightarrow> (Throws (Error ''Not connected''), w)
      | Some c \<Rightarrow> client_request c ''prompts/list'' (JObject []) ListPromptsResultSchema w)"

text \<open>The parameter \<^verbatim>\<open>args\<close> defaults to \<^verbatim>\<open>{}\<close> when it is not given (\<open>None\<close>).\<close>

definition getPrompt ::
  "nat option \<Rightarrow> string \<Rightarrow> (string \<times> string) list option \<Rightarrow> mcp_world
     \<Rightarrow> op_value returned \<times> mcp_world" where
  "getPrompt rendered_client name args w =
     (case rendered_client of
        None \<Rightarrow> (Throws (Error ''Not connected''), w)
      | Some c \<Rightarrow>
          client_request c ''prompts/get''
            (JObject [(''name'', JString name),
                      (''arguments'',
                       JObject (map (\<lambda>(k, v). (k, JString v))
                                  (case args of None \<Rightarrow> [] | Some a \<Rightarrow> a)))])
            GetPromptResultSchema w)"

definition listResources :: "nat option \<Rightarrow> mcp_world \<Rightarrow> op_value returned \<times> mcp_world" where
  "listResources rendered_client w =
     (case rendered_client of
        None \<Rightarrow> (Throws (Error ''Not connected''), w)
      | Some c \<Rightarrow> client_request c ''resources/list'' (JObject []) ListResourcesResultSchema w)"

definition readResource ::
  "nat option \<Rightarrow> string \<Rightarrow> mcp_world \<Rightarrow> op_value returned \<times> mcp_world" where
  "readResource rendered_client uri w =
     (case rendered_client of
        None \<Rightarrow> (Throws (Error ''Not connected''), w)
      | Some c \<Rightarrow>
          client_request c ''resources/read'' (JObject [(''uri'', JString uri)])
            ReadResourceResultSchema w)"

definition callTool ::
  "nat option \<Rightarrow> string \<Rightarrow> (string \<times> jsval) list option \<Rightarrow> mcp_world
     \<Rightarrow> op_value returned \<times> mcp_world" where
  "callTool rendered_client name args w =
     (case rendered_client of
        None \<Rightarrow> (Throws (Error ''Not connected''), w)
      | Some c \<Rightarrow>
          client_request c ''tools/call''
            (JObject [(''name'', JString name),
                      (''arguments'', JObject (case args of None \<Rightarrow> [] | Some a \<Rightarrow> a))])
            CallToolResultSchema w)"

section \<open>The elicitation form\<close>

fun truthy :: "jsval \<Rightarrow> bool" where
  "truthy JUndefined = False"
| "truthy JNull = False"
| "truthy (JBool b) = b"
| "truthy (JNumber n) = (n \<noteq> 0)"
| "truthy (JString s) = (s \<noteq> [])"
| "truthy (JArray xs) = True"
| "truthy (JObject fs) = True"

text \<open>
  Reading one of the properties \<^verbatim>\<open>properties\<close>, \<^verbatim>\<open>required\<close>,
  \<^verbatim>\<open>default\<close>, \<^verbatim>\<open>title\<close> or \<^verbatim>\<open>description\<close> of a value: a TypeError on
  \<^verbatim>\<open>null\<close> and \<^verbatim>\<open>undefined\<close>, the stored value on an object that has the
  property, \<^verbatim>\<open>undefined\<close> otherwise (no array, string, number or boolean has a
  property of one of these names). An object is a list of distinct keys with their
  values, in the order of \<^verbatim>\<open>Object.keys\<close>.
\<close>

fun js_get :: "jsval \<Rightarrow> string \<Rightarrow> error + jsval" where
  "js_get JUndefined k = Inl (Error ''TypeError'')"
| "js_get JNull k = Inl (Error ''TypeError'')"
| "js_get (JObject fs) k =
     Inr (case map_of fs k of
            None \<Rightarrow> JUndefined
          | Some v \<Rightarrow> v)"
| "js_get v k = Inr JUndefined"

text \<open>\<^verbatim>\<open>schema?.properties || {}\<close> and \<^verbatim>\<open>schema?.required || []\<close>\<close>

definition form_properties :: "jsval option \<Rightarrow> jsval" where
  "form_properties sch =
     (case sch of
        None \<Rightarrow> JObject []
      | Some s \<Rightarrow>
          (case js_get s ''properties'' of
             Inl e \<Rightarrow> JObject []
           | Inr v \<Rightarrow> if truthy v then v else JObject []))"

definition form_required :: "jsval option \<Rightarrow> jsval" where
  "form_required sch =
     (case sch of
        None \<Rightarrow> JArray []
      | Some s \<Rightarrow>
          (case js_get s ''required'' of
             Inl e \<Rightarrow> JArray []
           | Inr v \<Rightarrow> if truthy v then v else JArray []))"

text \<open>
  The key under which \<^verbatim>\<open>Object.keys\<close> lists the element at index \<open>i\<close> of an
  array or a string: the decimal digits of \<open>i\<close>, collected from the last digit on.
\<close>

definition decimal_digit :: "nat \<Rightarrow> char" where
  "decimal_digit d = ''0123456789'' ! d"

function index_digits :: "nat \<Rightarrow> string \<Rightarrow> string" where
  "index_digits i acc =
     (let acc' = decimal_digit (i mod 10) # acc
      in if i div 10 = 0 then acc' else index_digits (i div 10) acc')"
  by pat_completeness auto
termination
  by (relation "measure fst") auto

definition index_key :: "nat \<Rightarrow> string" where
  "index_key i = index_digits i []"

text \<open>
  \<^verbatim>\<open>Object.entries\<close> of a truthy value: the fields of an object, the elements of an
  array and the characters of a string under their indices, nothing for a number or a
  boolean.
\<close>

fun js_entries :: "jsval \<Rightarrow> (string \<times> jsval) list" where
  "js_entries (JObject fs) = fs"
| "js_entries (JArray xs) = zip (map index_key [0..<length xs]) xs"
| "js_entries (JString s) = zip (map index_key [0..<length s]) (map (\<lambda>c. JString [c]) s)"
| "js_entries v = []"

text \<open>
  The initialiser of the form's state: \<^verbatim>\<open>init[k] = properties[k].default ?? ''\<close>
  for each key, in order. It throws at the first property that is \<^verbatim>\<open>null\<close> or
  \<^verbatim>\<open>undefined\<close>.
\<close>

fun init_state :: "(string \<times> jsval) list \<Rightarrow> error + (string \<times> jsval) list" where
  "init_state [] = Inr []"
| "init_state ((k, prop) # rest) =
     (case js_get prop ''default'' of
        Inl e \<Rightarrow> Inl e
      | Inr d \<Rightarrow>
          (case init_state rest of
             Inl e \<Rightarrow> Inl e
           | Inr st \<Rightarrow> Inr ((k, nullish_or d (JString [])) # st)))"

text \<open>\<^verbatim>\<open>required.includes\<close> is a function on arrays and strings only.\<close>

fun has_includes :: "jsval \<Rightarrow> bool" where
  "has_includes (JArray xs) = True"
| "has_includes (JString s) = True"
| "has_includes v = False"

text \<open>
  The first render of \<^verbatim>\<open>ElicitationForm\<close> for a schema: it throws when the state
  initialiser throws, or when there is a property to draw and
  \<^verbatim>\<open>required.includes(name)\<close> is not callable; otherwise the form is drawn and the
  result is its initial state. A later render of the same form does not run the
  initialiser again, but it reads \<^verbatim>\<open>prop.title\<close> of every property and so throws
  for the same schemas.
\<close>

definition ElicitationForm_render :: "jsval option \<Rightarrow> error + jsval" where
  "ElicitationForm_render sch =
     (let entries = js_entries (form_properties sch);
          required = form_required sch
      in case init_state entries of
           Inl e \<Rightarrow> Inl e
         | Inr st \<Rightarrow>
             if entries \<noteq> [] \<and> \<not> has_includes required
             then Inl (Error ''TypeError'')
             else Inr (JObject st))"

text \<open>
  The validator is the Ajv library: \<^verbatim>\<open>ajv.compile\<close> throws or gives a validation
  function, which throws or answers. It is a parameter of the model.
\<close>

type_synonym ajv = "jsval \<Rightarrow> error + (jsval \<Rightarrow> error + bool)"

text \<open>A call that \<^verbatim>\<open>handleSubmit\<close> makes to the validator, with its argument.\<close>

datatype ajv_call = Compile jsval | Validate jsval

text \<open>\<^verbatim>\<open>schema || {}\<close>\<close>

definition schema_or_empty :: "jsval option \<Rightarrow> jsval" where
  "schema_or_empty s =
     (case s of
        None \<Rightarrow> JObject []
      | Some v \<Rightarrow> if truthy v then v else JObject [])"

text \<open>
  \<^verbatim>\<open>handleSubmit\<close> of \<^verbatim>\<open>ElicitationForm\<close>, with the form's current \<open>state\<close>.
  \<open>attempt\<close> is the \<^verbatim>\<open>try\<close> block: the validator calls it made, and \<open>Inl\<close> when
  it threw; the last line is the \<^verbatim>\<open>catch\<close>. The result is the list of validator
  calls made and the world after the call of \<^verbatim>\<open>onSubmit\<close>.
\<close>

definition handleSubmit ::
  "ajv \<Rightarrow> jsval option \<Rightarrow> jsval \<Rightarrow> (jsval \<Rightarrow> mcp_world \<Rightarrow> mcp_world) \<Rightarrow> mcp_world
     \<Rightarrow> ajv_call list \<times> mcp_world" where
  "handleSubmit compile sch state on_submit w =
     (let s = schema_or_empty sch;
          attempt =
            (case compile s of
               Inl e \<Rightarrow> ([Compile s], Inl e)
             | Inr validate \<Rightarrow>
                 (case validate state of
                    Inl e \<Rightarrow> ([Compile s, Validate state], Inl e)
                  | Inr ok \<Rightarrow>
                      ([Compile s, Validate state],
                       if ok then Inr (on_submit state w)
                       else Inr (on_submit state w))))
      in case snd attempt of
           Inr w' \<Rightarrow> (fst attempt, w')
         | Inl e \<Rightarrow> (fst attempt, on_submit state w))"

section \<open>The elicitation modal\<close>

text \<open>
  The modal is rendered only when both cells are set. Its two callbacks close over the
  resolver of the render that created them. When the render of the form throws, no form
  is on the screen.
\<close>

record modal_props =
  schema :: "jsval option"
  onSubmit :: "jsval \<Rightarrow> mcp_world \<Rightarrow> mcp_world"
  onCancel :: "mcp_world \<Rightarrow> mcp_world"

datatype rendered_modal = NoModal | ModalThrows error | Modal modal_props

definition accept_response :: "jsval \<Rightarrow> jsval" where
  "accept_response content = JObject [(''action'', JString ''accept''), (''content'', content)]"

definition cancel_response :: jsval where
  "cancel_response = JObject [(''action'', JString ''cancel'')]"

definition elicitation_modal :: "mcp_world \<Rightarrow> rendered_modal" where
  "elicitation_modal w =
     (case elicitationRequest w of
        None \<Rightarrow> NoModal
      | Some r \<Rightarrow>
          (case elicitationResolver w of
             None \<Rightarrow> NoModal
           | Some p \<Rightarrow>
               (case ElicitationForm_render (requestedSchema r) of
                  Inl e \<Rightarrow> ModalThrows e
                | Inr initial_state \<Rightarrow>
                    Modal \<lparr> schema = requestedSchema r,
                            onSubmit = (\<lambda>content. resolver_fn p (accept_response content)),
                            onCancel = resolver_fn p cancel_response \<rparr>)))"



section \<open>The context\<close>

text \<open>
  The value type of \<^verbatim>\<open>MCPContext\<close>. Its operations act on the world; the fields
  carry the prefix \<open>ctx_\<close> to keep them apart from the state cells.
\<close>

record mcp_context =
  ctx_client :: "nat option"
  ctx_transport :: "nat option"
  ctx_isConnected :: bool
  ctx_connect :: "mcp_world \<Rightarrow> connect_step \<times> mcp_world"
  ctx_disconnect :: "close_result \<Rightarrow> mcp_world \<Rightarrow> unit promise \<times> mcp_world"
  ctx_listTools :: "mcp_world \<Rightarrow> op_value returned \<times> mcp_world"
  ctx_listPrompts :: "mcp_world \<Rightarrow> op_value returned \<times> mcp_world"
  ctx_getPrompt ::
    "string \<Rightarrow> (string \<times> string) list option \<Rightarrow> mcp_world \<Rightarrow> op_value returned \<times> mcp_world"
  ctx_listResources :: "mcp_world \<Rightarrow> op_value returned \<times> mcp_world"
  ctx_readResource :: "string \<Rightarrow> mcp_world \<Rightarrow> op_value returned \<times> mcp_world"
  ctx_callTool ::
    "string \<Rightarrow> (string \<times> jsval) list option \<Rightarrow> mcp_world \<Rightarrow> op_value returned \<times> mcp_world"
  ctx_sessionId :: "string option"

text \<open>The argument of \<^verbatim>\<open>createContext\<close>: the default value.\<close>

definition MCPContext_default :: mcp_context where
  "MCPContext_default =
     \<lparr> ctx_client = None,
       ctx_transport = None,
       ctx_isConnected = False,
       ctx_connect = (\<lambda>w. (Returned, w)),
       ctx_disconnect = (\<lambda>_ w. (Fulfilled (), w)),
       ctx_listTools = (\<lambda>w. (Returns (Value (JObject [])), w)),
       ctx_listPrompts = (\<lambda>w. (Returns (Value (JObject [])), w)),
       ctx_getPrompt = (\<lambda>_ _ w. (Returns (Value (JObject [])), w)),
       ctx_listResources = (\<lambda>w. (Returns (Value (JObject [])), w)),
       ctx_readResource = (\<lambda>_ w. (Returns (Value (JObject [])), w)),
       ctx_callTool = (\<lambda>_ _ w. (Returns (Value (JObject [])), w)),
       ctx_sessionId = None \<rparr>"

text \<open>
  The value that \<^verbatim>\<open>MCPContext.Provider\<close> is given in the render of world \<open>w\<close>:
  the cells of that render, and the functions of that render, each closed over the cell
  it reads.
\<close>

definition provider_value :: "mcp_world \<Rightarrow> mcp_context" where
  "provider_value w =
     \<lparr> ctx_client = client w,
       ctx_transport = transport w,
       ctx_isConnected = isConnected w,
       ctx_connect = connect_begin (client w),
       ctx_disconnect = disconnect (transport w),
       ctx_listTools = listTools (client w),
       ctx_listPrompts = listPrompts (client w),
       ctx_getPrompt = getPrompt (client w),
       ctx_listResources = listResources (client w),
       ctx_readResource = readResource (client w),
       ctx_callTool = callTool (client w),
       ctx_sessionId = sessionId w \<rparr>"

text \<open>
  \<^verbatim>\<open>useMCP = () => useContext(MCPContext)\<close>: the value of the nearest provider above
  the consumer, or the default value when there is none (\<open>None\<close>).
\<close>

definition useMCP :: "mcp_context option \<Rightarrow> mcp_context" where
  "useMCP nearest_provider =
     (case nearest_provider of
        None \<Rightarrow> MCPContext_default
      | Some v \<Rightarrow> v)"

section \<open>The client library\<close>

text \<open>
  Modelled from the spec: the end of a successful handshake inside the client library
  (\<^verbatim>\<open>Client.connect\<close> of \<^verbatim>\<open>../mcp/client\<close>, which is not among the sources).
  Spec 4.1: on handshake success the session is connected over the transport that was
  built. The library holds client \<open>c\<close> as connected over transport \<open>t\<close>, and the
  suspended \<^verbatim>\<open>connect\<close> resumes.
\<close>

definition handshake_succeeds :: "nat \<Rightarrow> nat \<Rightarrow> string option \<Rightarrow> mcp_world \<Rightarrow> mcp_world" where
  "handshake_succeeds c t sid w =
     snd (connect_resume c t (Inr sid) (w\<lparr> open_links := open_links w @ [(c, t)] \<rparr>))"

text \<open>
  Modelled from the spec: a close of transport \<open>t\<close> that the transport starts itself
  (peer drop, network error; \<^verbatim>\<open>../mcp/client/streamableHttp.js\<close> is not among the
  sources). Spec 6: \<^verbatim>\<open>transport.onClose(callback)\<close> registers the callback that the
  transport calls when it closes. The link over \<open>t\<close> is gone, and the callback that
  \<^verbatim>\<open>connect\<close> installed runs.
\<close>

definition peer_closes :: "nat \<Rightarrow> mcp_world \<Rightarrow> mcp_world" where
  "peer_closes t w =
     transport_onclose (w\<lparr> open_links := filter (\<lambda>(c, t'). t' \<noteq> t) (open_links w) \<rparr>)"

text \<open>
  Modelled from the spec: whether the library holds client \<open>c\<close> as connected, over a
  transport on which \<^verbatim>\<open>close()\<close> has not been called.
\<close>

definition link_open :: "mcp_world \<Rightarrow> nat \<Rightarrow> bool" where
  "link_open w c = list_ex (\<lambda>(c', t). c' = c \<and> t \<notin> set (closes w)) (open_links w)"

text \<open>
  Modelled from the spec: \<^verbatim>\<open>client.request\<close> of \<^verbatim>\<open>../mcp/client\<close>, the request
  dispatcher, which is not among the sources. Spec 4.2: send constructs a pending
  request and submits it over the transport, then awaits one matching response or
  error. The result is the state of the returned promise right after the call and the
  requests submitted over the transport. What the promise of a request on a client
  without an open transport becomes is the parameter \<open>when_closed\<close>; nothing is
  submitted then.
\<close>

definition dispatcher_send ::
  "jsval promise \<Rightarrow> request_call \<Rightarrow> mcp_world \<Rightarrow> jsval promise \<times> request_call list" where
  "dispatcher_send when_closed r w =
     (if link_open w (on_client r) then (Pending, [r]) else (when_closed, []))"

section \<open>Example worlds\<close>

text \<open>A session whose handshake succeeded, with session identifier \<open>s1\<close>.\<close>

definition ready_world :: mcp_world where
  "ready_world =
     snd (connect_resume 0 0 (Inr (Some ''s1''))
            (snd (connect_begin (client initial_world) initial_world)))"

definition request_A :: elicit_request where
  "request_A = \<lparr> message = Some ''Your name?'', requestedSchema = Some (JObject []) \<rparr>"

definition request_B :: elicit_request where
  "request_B = \<lparr> message = Some ''Your city?'', requestedSchema = None \<rparr>"

text \<open>The ready session after the server has sent the elicitation request \<open>request_A\<close>.\<close>

definition slot_world :: mcp_world where
  "slot_world = snd (elicit_handler request_A ready_world)"

text \<open>An elicitation request whose schema asks for one required string.\<close>

definition name_schema :: jsval where
  "name_schema =
     JObject [(''type'', JString ''object''),
              (''properties'',
               JObject [(''name'', JObject [(''type'', JString ''string''),
                                            (''title'', JString ''Name'')])]),
              (''required'', JArray [JString ''name''])]"

definition request_C :: elicit_request where
  "request_C = \<lparr> message = Some ''Who are you?'', requestedSchema = Some name_schema \<rparr>"

text \<open>The ready session after the server has sent \<open>request_C\<close>, and its modal.\<close>

definition form_world :: mcp_world where
  "form_world = snd (elicit_handler request_C ready_world)"

definition form_modal :: modal_props where
  "form_modal =
     \<lparr> schema = Some name_schema,
       onSubmit = (\<lambda>content. resolver_fn 0 (accept_response content)),
       onCancel = resolver_fn 0 cancel_response \<rparr>"



text \<open>
  Two \<^verbatim>\<open>connect()\<close> calls from renders without a client, both handshakes succeed,
  and then the peer closes the first transport.
\<close>

definition two_clients_world :: mcp_world where
  "two_clients_world =
     peer_closes 0
       (handshake_succeeds 1 1 (Some ''s2'')
          (handshake_succeeds 0 0 (Some ''s1'')
             (connect_calls None (Suc (Suc 0)) initial_world)))"

text \<open>A close that succeeds, during which the transport calls its callback.\<close>

definition close_ok :: close_result where
  "close_ok = \<lparr> fires_onclose = True, close_throws = None \<rparr>"


definition ajv_rejecting :: ajv where
  "ajv_rejecting sch = Inr (\<lambda>v. Inr False)"

definition ajv_throwing :: ajv where
  "ajv_throwing sch = Inl (Error ''schema is invalid'')"

section \<open>Facts about the example worlds\<close>

lemma ready_world_eq:
  "ready_world =
     \<lparr> client = Some 0, transport = Some 0, isConnected = True,
       elicitationRequest = None, elicitationResolver = None, sessionId = Some ''s1'',
       clients_created = 1, transports_created = 1,
       handlers = [(0, LoggingMessageNotificationSchema),
                   (0, ResourceListChangedNotificationSchema),
                   (0, ElicitRequestSchema)],
       closes = [], requests = [], promises = [], responses = [], console = [],
       open_links = [] \<rparr>"
  by (simp add: ready_world_def connect_resume_def connect_begin_def initial_world_def Let_def)

lemma slot_world_eq:
  "slot_world =
     \<lparr> client = Some 0, transport = Some 0, isConnected = True,
       elicitationRequest = Some request_A, elicitationResolver = Some 0,
       sessionId = Some ''s1'',
       clients_created = 1, transports_created = 1,
       handlers = [(0, LoggingMessageNotificationSchema),
                   (0, ResourceListChangedNotificationSchema),
                   (0, ElicitRequestSchema)],
       closes = [], requests = [], promises = [Pending], responses = [], console = [],
       open_links = [] \<rparr>"
  by (simp add: slot_world_def ready_world_eq elicit_handler_def Let_def)

lemma form_world_eq:
  "form_world =
     \<lparr> client = Some 0, transport = Some 0, isConnected = True,
       elicitationRequest = Some request_C, elicitationResolver = Some 0,
       sessionId = Some ''s1'',
       clients_created = 1, transports_created = 1,
       handlers = [(0, LoggingMessageNotificationSchema),
                   (0, ResourceListChangedNotificationSchema),
                   (0, ElicitRequestSchema)],
       closes = [], requests = [], promises = [Pending], responses = [], console = [],
       open_links = [] \<rparr>"
  by (simp add: form_world_def ready_world_eq elicit_handler_def Let_def)

lemma name_schema_renders:
  "ElicitationForm_render (Some name_schema) = Inr (JObject [(''name'', JString [])])"
  by (simp add: ElicitationForm_render_def form_properties_def form_required_def
      name_schema_def nullish_or_def Let_def)

lemma form_world_modal: "elicitation_modal form_world = Modal form_modal"
  by (simp add: form_world_eq elicitation_modal_def form_modal_def request_C_def
      name_schema_renders)

lemma form_world_pending:
  "elicitationRequest form_world = Some request_C"
  "elicitationResolver form_world = Some 0"
  "0 < length (promises form_world)"
  "promises form_world ! 0 = Pending"
  by (simp_all add: form_world_eq)



lemma two_clients_world_eq:
  "two_clients_world =
     \<lparr> client = Some 1, transport = Some 1, isConnected = False,
       elicitationRequest = None, elicitationResolver = None, sessionId = None,
       clients_created = 2, transports_created = 2,
       handlers = [(0, LoggingMessageNotificationSchema),
                   (0, ResourceListChangedNotificationSchema),
                   (0, ElicitRequestSchema),
                   (1, LoggingMessageNotificationSchema),
                   (1, ResourceListChangedNotificationSchema),
                   (1, ElicitRequestSchema)],
       closes = [], requests = [], promises = [], responses = [], console = [],
       open_links = [(1, 1)] \<rparr>"
  by (simp add: two_clients_world_def peer_closes_def handshake_succeeds_def
      connect_resume_def connect_begin_def transport_onclose_def initial_world_def Let_def)

section \<open>Facts about the form and the resolver\<close>

lemma handleSubmit_world:
  "snd (handleSubmit compile sch state on_submit w) = on_submit state w"
  by (simp add: handleSubmit_def Let_def split: sum.splits)

lemma handleSubmit_calls:
  "fst (handleSubmit compile sch state on_submit w) =
     Compile (schema_or_empty sch) #
       (case compile (schema_or_empty sch) of
          Inl e \<Rightarrow> []
        | Inr validate \<Rightarrow> [Validate state])"
  by (simp add: handleSubmit_def Let_def split: sum.splits)

lemma modal_callbacks:
  assumes "elicitationRequest w = Some r"
    and "elicitationResolver w = Some p"
    and "elicitation_modal w = Modal m"
  shows "schema m = requestedSchema r"
    and "onSubmit m = (\<lambda>content. resolver_fn p (accept_response content))"
    and "onCancel m = resolver_fn p cancel_response"
  using assms by (auto simp: elicitation_modal_def split: sum.splits)

lemma resolver_fn_pending:
  assumes "p < length (promises w)" and "promises w ! p = Pending"
  shows "resolver_fn p res w =
           w\<lparr> promises := (promises w)[p := Fulfilled res],
              responses := responses w @ [(p, res)],
              elicitationRequest := None, elicitationResolver := None \<rparr>"
  using assms by (simp add: resolver_fn_def resolve_promise_def)





section \<open>Facts about connect\<close>

lemma connect_calls_client_held:
  "connect_calls (Some c) n w = w"
  by (induction n) (simp_all add: connect_begin_def)

lemma connect_begin_no_client:
  "connect_begin None w =
     (Awaiting_handshake (clients_created w) (transports_created w),
      w\<lparr> clients_created := Suc (clients_created w),
         transports_created := Suc (transports_created w),
         handlers := handlers w @
           [(clients_created w, LoggingMessageNotificationSchema),
            (clients_created w, ResourceListChangedNotificationSchema),
            (clients_created w, ElicitRequestSchema)] \<rparr>)"
  by (simp add: connect_begin_def Let_def)

lemma connect_calls_no_client:
  "transports_created (connect_calls None n w) = transports_created w + n"
  "clients_created (connect_calls None n w) = clients_created w + n"
  "client (connect_calls None n w) = client w"
  by (induction n arbitrary: w) (simp_all add: connect_begin_no_client)

section \<open>Claims\<close>

subsection \<open>C1: an elicitation request while a slot is active\<close>

text \<open>
  C1, as the code has it. When an elicitation request \<open>rq\<close> arrives while a slot is
  active (the resolver cell holds the resolver of a promise \<open>p0\<close> that is still pending),
  the handler does not refuse it: it creates a new pending promise, different from
  \<open>p0\<close>, and stores \<open>rq\<close> and the new resolver in the two state cells, in place of
  the earlier ones. Nothing is thrown or logged, no response is sent, and the earlier
  promise stays pending.
\<close>

theorem elicit_handler_overwrites_slot:
  assumes "elicitationResolver w = Some p0"
    and "p0 < length (promises w)"
    and "promises w ! p0 = Pending"
  shows "fst (elicit_handler rq w) \<noteq> p0
    \<and> promises (snd (elicit_handler rq w)) ! fst (elicit_handler rq w) = Pending
    \<and> elicitationRequest (snd (elicit_handler rq w)) = Some rq
    \<and> elicitationResolver (snd (elicit_handler rq w)) = Some (fst (elicit_handler rq w))
    \<and> promises (snd (elicit_handler rq w)) ! p0 = Pending
    \<and> responses (snd (elicit_handler rq w)) = responses w
    \<and> console (snd (elicit_handler rq w)) = console w"
  using assms by (simp add: elicit_handler_def Let_def nth_append)

text \<open>The theorem at \<open>slot_world\<close>, where the slot of \<open>request_A\<close> is active.\<close>

theorem elicit_handler_overwrites_slot_witness:
  "elicitationResolver slot_world = Some 0
    \<and> 0 < length (promises slot_world)
    \<and> promises slot_world ! 0 = Pending
    \<and> fst (elicit_handler request_B slot_world) \<noteq> 0
    \<and> elicitationRequest (snd (elicit_handler request_B slot_world)) = Some request_B
    \<and> promises (snd (elicit_handler request_B slot_world)) ! 0 = Pending"
  using elicit_handler_overwrites_slot [of slot_world 0 request_B]
  by (simp add: slot_world_eq)

text \<open>
  C1 as stated fails: in \<open>slot_world\<close> the slot of \<open>request_A\<close> is active, and the
  offer of \<open>request_B\<close> is not rejected (its promise is pending) and replaces both the
  stored request and the stored resolver.
\<close>

theorem concurrent_elicitation_counterexample:
  "elicitationRequest slot_world = Some request_A
    \<and> elicitationResolver slot_world = Some 0
    \<and> promises slot_world ! 0 = Pending
    \<and> promises (snd (elicit_handler request_B slot_world)) ! fst (elicit_handler request_B slot_world)
        \<noteq> Rejected (Error ''concurrent elicitation not supported'')
    \<and> promises (snd (elicit_handler request_B slot_world)) ! fst (elicit_handler request_B slot_world)
        = Pending
    \<and> elicitationRequest (snd (elicit_handler request_B slot_world)) = Some request_B
    \<and> elicitationRequest (snd (elicit_handler request_B slot_world)) \<noteq> elicitationRequest slot_world
    \<and> elicitationResolver (snd (elicit_handler request_B slot_world)) \<noteq> elicitationResolver slot_world"
  by (simp add: slot_world_eq elicit_handler_def Let_def request_A_def request_B_def)

subsection \<open>C2: disconnect and pending work\<close>

text \<open>
  C2, as the code has it. Take a \<^verbatim>\<open>disconnect\<close> created by a render that holds a
  transport \<open>t\<close> (as the one in the current value of the context is, while a
  transport is held), called in any world \<open>w\<close>, with a \<^verbatim>\<open>close()\<close> that does not
  throw. It calls \<^verbatim>\<open>close()\<close> on \<open>t\<close>, sets the client and transport cells to
  null and \<^verbatim>\<open>isConnected\<close> to false, and its promise is fulfilled; the session
  identifier is cleared when the transport calls its \<^verbatim>\<open>onclose\<close> callback while
  closing. Nothing else changes: the stored elicitation request, the stored resolver
  and every promise are as before, and no response is sent, so the function itself
  rejects nothing. A \<^verbatim>\<open>disconnect\<close> created by a render without a transport (as the
  one that the effect cleanup keeps) returns at once and changes nothing, whatever the
  world holds.
\<close>

theorem disconnect_leaves_elicitation_slot:
  assumes "close_throws cr = None"
  shows "disconnect (Some t) cr w =
      (Fulfilled (),
       (if fires_onclose cr then w\<lparr> sessionId := None \<rparr> else w)
         \<lparr> closes := closes w @ [t], client := None, transport := None,
           isConnected := False \<rparr>)
    \<and> client (snd (disconnect (Some t) cr w)) = None
    \<and> transport (snd (disconnect (Some t) cr w)) = None
    \<and> isConnected (snd (disconnect (Some t) cr w)) = False
    \<and> closes (snd (disconnect (Some t) cr w)) = closes w @ [t]
    \<and> promises (snd (disconnect (Some t) cr w)) = promises w
    \<and> elicitationRequest (snd (disconnect (Some t) cr w)) = elicitationRequest w
    \<and> elicitationResolver (snd (disconnect (Some t) cr w)) = elicitationResolver w
    \<and> responses (snd (disconnect (Some t) cr w)) = responses w
    \<and> requests (snd (disconnect (Some t) cr w)) = requests w
    \<and> disconnect None cr' w = (Fulfilled (), w)
    \<and> effect_cleanup cr' w = (Fulfilled (), w)"
  using assms
  by (simp add: disconnect_def transport_onclose_def effect_cleanup_def initial_world_def Let_def)

text \<open>
  The theorem at \<open>slot_world\<close>, for the \<^verbatim>\<open>disconnect\<close> of its own render, which
  holds transport 0.
\<close>

theorem disconnect_leaves_elicitation_slot_witness:
  "close_throws close_ok = None
    \<and> transport slot_world = Some 0
    \<and> client (snd (disconnect (transport slot_world) close_ok slot_world)) = None
    \<and> transport (snd (disconnect (transport slot_world) close_ok slot_world)) = None
    \<and> isConnected (snd (disconnect (transport slot_world) close_ok slot_world)) = False
    \<and> closes (snd (disconnect (transport slot_world) close_ok slot_world)) = [0]
    \<and> promises (snd (disconnect (transport slot_world) close_ok slot_world)) = [Pending]
    \<and> elicitationResolver (snd (disconnect (transport slot_world) close_ok slot_world)) = Some 0"
proof -
  have ok: "close_throws close_ok = None"
    by (simp add: close_ok_def)
  have t: "transport slot_world = Some 0"
    by (simp add: slot_world_eq)
  show ?thesis
    using disconnect_leaves_elicitation_slot [OF ok, of 0 slot_world] ok
    by (simp add: t) (simp add: slot_world_eq)
qed

text \<open>
  C2 as stated fails: after the \<^verbatim>\<open>disconnect()\<close> of the latest render in
  \<open>slot_world\<close>, with a close that succeeds, the promise of the active slot is still
  pending, not rejected with a session-closed error, and the slot is still stored. The
  \<^verbatim>\<open>disconnect()\<close> of the effect cleanup does not even leave the session
  disconnected.
\<close>

theorem disconnect_session_closed_counterexample:
  "transport slot_world = Some 0
    \<and> elicitationResolver slot_world = Some 0
    \<and> promises slot_world ! 0 = Pending
    \<and> promises (snd (disconnect (transport slot_world) close_ok slot_world)) ! 0
        \<noteq> Rejected (Error ''session closed'')
    \<and> promises (snd (disconnect (transport slot_world) close_ok slot_world)) ! 0 = Pending
    \<and> elicitationRequest (snd (disconnect (transport slot_world) close_ok slot_world))
        = Some request_A
    \<and> elicitationResolver (snd (disconnect (transport slot_world) close_ok slot_world)) = Some 0
    \<and> isConnected (snd (effect_cleanup close_ok slot_world)) = True
    \<and> closes (snd (effect_cleanup close_ok slot_world)) = []"
  by (simp add: slot_world_eq disconnect_def close_ok_def transport_onclose_def
      effect_cleanup_def initial_world_def Let_def)

subsection \<open>C3: a failed handshake\<close>

text \<open>
  C3, as the code has it. When the handshake of a \<^verbatim>\<open>connect()\<close> call throws \<open>e\<close>,
  the client and transport cells are set to null and \<^verbatim>\<open>isConnected\<close> to false (the
  same cells as after a disconnect: there is no separate failed state), \<open>e\<close> is
  written to the console, and the promise that \<^verbatim>\<open>connect()\<close> returned is fulfilled,
  not rejected. There is no retry: no further client or transport is constructed, no
  handler registered and no request sent.
\<close>

theorem connect_failure_logged:
  "fst (connect_resume c t (Inl e) w) = Fulfilled ()
    \<and> client (snd (connect_resume c t (Inl e) w)) = None
    \<and> transport (snd (connect_resume c t (Inl e) w)) = None
    \<and> isConnected (snd (connect_resume c t (Inl e) w)) = False
    \<and> console (snd (connect_resume c t (Inl e) w)) =
        console w @ [ConsoleError ''Failed to connect to MCP server:'' e]
    \<and> clients_created (snd (connect_resume c t (Inl e) w)) = clients_created w
    \<and> transports_created (snd (connect_resume c t (Inl e) w)) = transports_created w
    \<and> handlers (snd (connect_resume c t (Inl e) w)) = handlers w
    \<and> requests (snd (connect_resume c t (Inl e) w)) = requests w"
  by (simp add: connect_resume_def)

text \<open>
  C3 as stated fails: the first \<^verbatim>\<open>connect()\<close> of a fresh provider, whose handshake
  throws, returns a promise that is fulfilled, not rejected with the handshake error.
\<close>

theorem connect_failure_counterexample:
  "fst (connect_begin (client initial_world) initial_world) = Awaiting_handshake 0 0
    \<and> fst (connect_resume 0 0 (Inl (Error ''handshake failed''))
             (snd (connect_begin (client initial_world) initial_world)))
        \<noteq> Rejected (Error ''handshake failed'')
    \<and> fst (connect_resume 0 0 (Inl (Error ''handshake failed''))
             (snd (connect_begin (client initial_world) initial_world)))
        = Fulfilled ()"
  by (simp add: connect_begin_def connect_resume_def initial_world_def Let_def)

subsection \<open>C4: repeated connect\<close>

text \<open>
  C4, as the code has it. Whether a \<^verbatim>\<open>connect()\<close> call is a no-op is decided by the
  client that the render which created it holds, and by nothing else. Created by a
  render that holds a client, it returns at once and changes nothing, so any number of
  such calls construct no client and no transport. Created by a render that holds no
  client (as every render is until a handshake has succeeded, and as the one that the
  effect keeps), it constructs a new client and a new transport, registers the handlers
  and starts a handshake, in every world: \<open>n\<close> such calls construct \<open>n\<close> clients and
  \<open>n\<close> transports, and they leave the client cell as it is.
\<close>

theorem connect_noop_when_client_held:
  "connect_begin (Some c) w = (Returned, w)
    \<and> connect_calls (Some c) n w = w
    \<and> connect_begin None w =
        (Awaiting_handshake (clients_created w) (transports_created w),
         w\<lparr> clients_created := Suc (clients_created w),
            transports_created := Suc (transports_created w),
            handlers := handlers w @
              [(clients_created w, LoggingMessageNotificationSchema),
               (clients_created w, ResourceListChangedNotificationSchema),
               (clients_created w, ElicitRequestSchema)] \<rparr>)
    \<and> transports_created (connect_calls None n w) = transports_created w + n
    \<and> clients_created (connect_calls None n w) = clients_created w + n
    \<and> client (connect_calls None n w) = client w"
  by (simp add: connect_calls_client_held connect_begin_no_client connect_calls_no_client)
    (simp add: connect_begin_def)

text \<open>
  C4 as stated fails. The client cell is set only after the handshake, so a second
  \<^verbatim>\<open>connect()\<close> made while the first is still in its handshake does not return at
  once; it constructs a second client and a second transport. And the
  \<^verbatim>\<open>connect()\<close> of the first render, called in the ready session, constructs a
  second client and transport as well.
\<close>

theorem connect_while_connecting_counterexample:
  "client initial_world = None
    \<and> fst (connect_begin (client initial_world) initial_world) = Awaiting_handshake 0 0
    \<and> client (snd (connect_begin (client initial_world) initial_world)) = None
    \<and> fst (connect_begin (client (snd (connect_begin (client initial_world) initial_world)))
             (snd (connect_begin (client initial_world) initial_world)))
        = Awaiting_handshake 1 1
    \<and> fst (connect_begin (client (snd (connect_begin (client initial_world) initial_world)))
             (snd (connect_begin (client initial_world) initial_world)))
        \<noteq> Returned
    \<and> transports_created (connect_calls None (Suc (Suc 0)) initial_world) = 2
    \<and> client ready_world = Some 0
    \<and> fst (connect_begin (client initial_world) ready_world) = Awaiting_handshake 1 1"
  by (simp add: ready_world_eq) (simp add: connect_begin_def initial_world_def Let_def)

subsection \<open>C5: a close that the transport reports\<close>

text \<open>
  C5, as the code has it. The \<^verbatim>\<open>onclose\<close> callback of the transport sets
  \<^verbatim>\<open>isConnected\<close> to false and clears the session identifier, and nothing else: the
  world after it is the world before it with these two cells written. So the client
  and transport cells keep their values, \<^verbatim>\<open>close()\<close> is not called, no client or
  transport is constructed, no handler is registered, and the elicitation slot, the
  promises, the requests, the responses and the console are unchanged.
\<close>

theorem transport_onclose_keeps_references:
  "transport_onclose w = w\<lparr> isConnected := False, sessionId := None \<rparr>
    \<and> isConnected (transport_onclose w) = False
    \<and> sessionId (transport_onclose w) = None
    \<and> client (transport_onclose w) = client w
    \<and> transport (transport_onclose w) = transport w
    \<and> closes (transport_onclose w) = closes w
    \<and> promises (transport_onclose w) = promises w
    \<and> elicitationRequest (transport_onclose w) = elicitationRequest w
    \<and> elicitationResolver (transport_onclose w) = elicitationResolver w
    \<and> requests (transport_onclose w) = requests w
    \<and> responses (transport_onclose w) = responses w
    \<and> console (transport_onclose w) = console w
    \<and> clients_created (transport_onclose w) = clients_created w
    \<and> transports_created (transport_onclose w) = transports_created w
    \<and> handlers (transport_onclose w) = handlers w"
  by (simp add: transport_onclose_def)

text \<open>
  C5 as stated fails: in \<open>ready_world\<close> the \<^verbatim>\<open>disconnect()\<close> of the latest render
  drops the client and the transport, while the \<^verbatim>\<open>onclose\<close> callback keeps both, so
  the two do not end in the same state.
\<close>

theorem transport_onclose_counterexample:
  "client ready_world = Some 0
    \<and> transport ready_world = Some 0
    \<and> client (snd (disconnect (transport ready_world) close_ok ready_world)) = None
    \<and> transport (snd (disconnect (transport ready_world) close_ok ready_world)) = None
    \<and> client (transport_onclose ready_world) = Some 0
    \<and> transport (transport_onclose ready_world) = Some 0
    \<and> transport_onclose ready_world \<noteq> snd (disconnect (transport ready_world) close_ok ready_world)"
proof -
  have "client (transport_onclose ready_world)
          \<noteq> client (snd (disconnect (transport ready_world) close_ok ready_world))"
    by (simp add: ready_world_eq transport_onclose_def disconnect_def close_ok_def Let_def)
  then have "transport_onclose ready_world
          \<noteq> snd (disconnect (transport ready_world) close_ok ready_world)"
    by auto
  then show ?thesis
    by (simp add: ready_world_eq transport_onclose_def disconnect_def close_ok_def Let_def)
qed

subsection \<open>C6: operations without a connection\<close>

text \<open>
  C6, as the code has it. The guard of the six protocol operations is the client that the
  render which created the operation holds; \<^verbatim>\<open>isConnected\<close> is not read. Created
  by a render without a client, each operation throws \<^verbatim>\<open>Error('Not connected')\<close>
  (its promise rejects) and leaves the world as it is: nothing is handed to a client.
  Created by a render that holds client \<open>c\<close>, each operation, in every world, hands
  one request with its fixed method and result schema to \<^verbatim>\<open>request\<close> of \<open>c\<close>
  and returns the promise of that call; what becomes of it is decided by the client
  library. A close that the transport reports keeps the client cell, so the operations
  of the renders after it still hand their requests to the client.
\<close>

theorem not_connected_iff_no_client:
  "listTools None w = (Throws (Error ''Not connected''), w)
    \<and> listPrompts None w = (Throws (Error ''Not connected''), w)
    \<and> getPrompt None name pargs w = (Throws (Error ''Not connected''), w)
    \<and> listResources None w = (Throws (Error ''Not connected''), w)
    \<and> readResource None uri w = (Throws (Error ''Not connected''), w)
    \<and> callTool None name targs w = (Throws (Error ''Not connected''), w)
    \<and> listTools (Some c) w =
        (Returns (ResultOf \<lparr> on_client = c, rpc_method = ''tools/list'', params = JObject [],
                             resultSchema = ListToolsResultSchema \<rparr>),
         w\<lparr> requests := requests w @
              [\<lparr> on_client = c, rpc_method = ''tools/list'', params = JObject [],
                 resultSchema = ListToolsResultSchema \<rparr>] \<rparr>)
    \<and> listPrompts (Some c) w =
        (Returns (ResultOf \<lparr> on_client = c, rpc_method = ''prompts/list'', params = JObject [],
                             resultSchema = ListPromptsResultSchema \<rparr>),
         w\<lparr> requests := requests w @
              [\<lparr> on_client = c, rpc_method = ''prompts/list'', params = JObject [],
                 resultSchema = ListPromptsResultSchema \<rparr>] \<rparr>)
    \<and> getPrompt (Some c) name pargs w =
        (Returns (ResultOf \<lparr> on_client = c, rpc_method = ''prompts/get'',
                             params = JObject [(''name'', JString name),
                               (''arguments'',
                                JObject (map (\<lambda>(k, v). (k, JString v))
                                           (case pargs of None \<Rightarrow> [] | Some a \<Rightarrow> a)))],
                             resultSchema = GetPromptResultSchema \<rparr>),
         w\<lparr> requests := requests w @
              [\<lparr> on_client = c, rpc_method = ''prompts/get'',
                 params = JObject [(''name'', JString name),
                   (''arguments'',
                    JObject (map (\<lambda>(k, v). (k, JString v))
                               (case pargs of None \<Rightarrow> [] | Some a \<Rightarrow> a)))],
                 resultSchema = GetPromptResultSchema \<rparr>] \<rparr>)
    \<and> listResources (Some c) w =
        (Returns (ResultOf \<lparr> on_client = c, rpc_method = ''resources/list'', params = JObject [],
                             resultSchema = ListResourcesResultSchema \<rparr>),
         w\<lparr> requests := requests w @
              [\<lparr> on_client = c, rpc_method = ''resources/list'', params = JObject [],
                 resultSchema = ListResourcesResultSchema \<rparr>] \<rparr>)
    \<and> readResource (Some c) uri w =
        (Returns (ResultOf \<lparr> on_client = c, rpc_method = ''resources/read'',
                             params = JObject [(''uri'', JString uri)],
                             resultSchema = ReadResourceResultSchema \<rparr>),
         w\<lparr> requests := requests w @
              [\<lparr> on_client = c, rpc_method = ''resources/read'',
                 params = JObject [(''uri'', JString uri)],
                 resultSchema = ReadResourceResultSchema \<rparr>] \<rparr>)
    \<and> callTool (Some c) name targs w =
        (Returns (ResultOf \<lparr> on_client = c, rpc_method = ''tools/call'',
                             params = JObject [(''name'', JString name),
                               (''arguments'',
                                JObject (case targs of None \<Rightarrow> [] | Some a \<Rightarrow> a))],
                             resultSchema = CallToolResultSchema \<rparr>),
         w\<lparr> requests := requests w @
              [\<lparr> on_client = c, rpc_method = ''tools/call'',
                 params = JObject [(''name'', JString name),
                   (''arguments'',
                    JObject (case targs of None \<Rightarrow> [] | Some a \<Rightarrow> a))],
                 resultSchema = CallToolResultSchema \<rparr>] \<rparr>)
    \<and> client (transport_onclose w) = client w
    \<and> isConnected (transport_onclose w) = False"
proof -
  have none:
    "listTools None w = (Throws (Error ''Not connected''), w)"
    "listPrompts None w = (Throws (Error ''Not connected''), w)"
    "getPrompt None name pargs w = (Throws (Error ''Not connected''), w)"
    "listResources None w = (Throws (Error ''Not connected''), w)"
    "readResource None uri w = (Throws (Error ''Not connected''), w)"
    "callTool None name targs w = (Throws (Error ''Not connected''), w)"
    by (simp_all add: listTools_def listPrompts_def getPrompt_def listResources_def
        readResource_def callTool_def)
  have lists:
    "listTools (Some c) w =
        (Returns (ResultOf \<lparr> on_client = c, rpc_method = ''tools/list'', params = JObject [],
                             resultSchema = ListToolsResultSchema \<rparr>),
         w\<lparr> requests := requests w @
              [\<lparr> on_client = c, rpc_method = ''tools/list'', params = JObject [],
                 resultSchema = ListToolsResultSchema \<rparr>] \<rparr>)"
    "listPrompts (Some c) w =
        (Returns (ResultOf \<lparr> on_client = c, rpc_method = ''prompts/list'', params = JObject [],
                             resultSchema = ListPromptsResultSchema \<rparr>),
         w\<lparr> requests := requests w @
              [\<lparr> on_client = c, rpc_method = ''prompts/list'', params = JObject [],
                 resultSchema = ListPromptsResultSchema \<rparr>] \<rparr>)"
    "listResources (Some c) w =
        (Returns (ResultOf \<lparr> on_client = c, rpc_method = ''resources/list'', params = JObject [],
                             resultSchema = ListResourcesResultSchema \<rparr>),
         w\<lparr> requests := requests w @
              [\<lparr> on_client = c, rpc_method = ''resources/list'', params = JObject [],
                 resultSchema = ListResourcesResultSchema \<rparr>] \<rparr>)"
    by (simp_all add: listTools_def listPrompts_def listResources_def client_request_def Let_def)
  have with_args:
    "getPrompt (Some c) name pargs w =
        (Returns (ResultOf \<lparr> on_client = c, rpc_method = ''prompts/get'',
                             params = JObject [(''name'', JString name),
                               (''arguments'',
                                JObject (map (\<lambda>(k, v). (k, JString v))
                                           (case pargs of None \<Rightarrow> [] | Some a \<Rightarrow> a)))],
                             resultSchema = GetPromptResultSchema \<rparr>),
         w\<lparr> requests := requests w @
              [\<lparr> on_client = c, rpc_method = ''prompts/get'',
                 params = JObject [(''name'', JString name),
                   (''arguments'',
                    JObject (map (\<lambda>(k, v). (k, JString v))
                               (case pargs of None \<Rightarrow> [] | Some a \<Rightarrow> a)))],
                 resultSchema = GetPromptResultSchema \<rparr>] \<rparr>)"
    "readResource (Some c) uri w =
        (Returns (ResultOf \<lparr> on_client = c, rpc_method = ''resources/read'',
                             params = JObject [(''uri'', JString uri)],
                             resultSchema = ReadResourceResultSchema \<rparr>),
         w\<lparr> requests := requests w @
              [\<lparr> on_client = c, rpc_method = ''resources/read'',
                 params = JObject [(''uri'', JString uri)],
                 resultSchema = ReadResourceResultSchema \<rparr>] \<rparr>)"
    "callTool (Some c) name targs w =
        (Returns (ResultOf \<lparr> on_client = c, rpc_method = ''tools/call'',
                             params = JObject [(''name'', JString name),
                               (''arguments'',
                                JObject (case targs of None \<Rightarrow> [] | Some a \<Rightarrow> a))],
                             resultSchema = CallToolResultSchema \<rparr>),
         w\<lparr> requests := requests w @
              [\<lparr> on_client = c, rpc_method = ''tools/call'',
                 params = JObject [(''name'', JString name),
                   (''arguments'',
                    JObject (case targs of None \<Rightarrow> [] | Some a \<Rightarrow> a))],
                 resultSchema = CallToolResultSchema \<rparr>] \<rparr>)"
    by (simp_all add: getPrompt_def readResource_def callTool_def client_request_def Let_def)
  have kept:
    "client (transport_onclose w) = client w"
    "isConnected (transport_onclose w) = False"
    by (simp_all add: transport_onclose_def)
  from none lists with_args kept show ?thesis
    by (intro conjI)
qed

text \<open>
  C6 as stated fails in \<open>two_clients_world\<close>. Two \<^verbatim>\<open>connect()\<close> calls were made
  before a client was held, both handshakes succeeded, and the peer then closed the
  first transport: \<^verbatim>\<open>isConnected\<close> is false, and the client cell holds the second
  client, whose transport is open. \<^verbatim>\<open>callTool("search", {query: "x"})\<close> of the
  latest render does not throw the not-connected error; it hands a
  \<^verbatim>\<open>tools/call\<close> request to client 1, and the dispatcher submits that request over
  the transport and leaves its promise pending, even when it rejects every request on a
  client without an open transport with that error.
\<close>

theorem not_connected_after_close_counterexample:
  "isConnected two_clients_world = False
    \<and> ctx_isConnected (provider_value two_clients_world) = False
    \<and> client two_clients_world = Some 1
    \<and> fst (ctx_callTool (provider_value two_clients_world) ''search''
             (Some [(''query'', JString ''x'')]) two_clients_world)
        = Returns (ResultOf
            \<lparr> on_client = 1, rpc_method = ''tools/call'',
              params = JObject [(''name'', JString ''search''),
                                (''arguments'', JObject [(''query'', JString ''x'')])],
              resultSchema = CallToolResultSchema \<rparr>)
    \<and> fst (ctx_callTool (provider_value two_clients_world) ''search''
             (Some [(''query'', JString ''x'')]) two_clients_world)
        \<noteq> Throws (Error ''Not connected'')
    \<and> dispatcher_send (Rejected (Error ''Not connected''))
        \<lparr> on_client = 1, rpc_method = ''tools/call'',
          params = JObject [(''name'', JString ''search''),
                            (''arguments'', JObject [(''query'', JString ''x'')])],
          resultSchema = CallToolResultSchema \<rparr>
        two_clients_world
        = (Pending,
           [\<lparr> on_client = 1, rpc_method = ''tools/call'',
              params = JObject [(''name'', JString ''search''),
                                (''arguments'', JObject [(''query'', JString ''x'')])],
              resultSchema = CallToolResultSchema \<rparr>])"
  by (simp add: two_clients_world_eq provider_value_def callTool_def client_request_def
      dispatcher_send_def link_open_def Let_def)

subsection \<open>C7: validation of the submitted content\<close>

text \<open>
  C7. Let the modal be rendered in \<open>w\<close> for the stored request \<open>r\<close> and a pending
  promise \<open>p\<close>, and let the form be submitted with content \<open>state\<close>. The form got
  the requested schema of \<open>r\<close>. \<^verbatim>\<open>handleSubmit\<close> has the validator compile that
  schema (the empty schema \<^verbatim>\<open>{}\<close> when there is none or it is null) and, when compiling does not
  throw, validate \<open>state\<close> with the result. Whatever the validator does, accepting,
  rejecting, or throwing in either call, the outcome is the same: promise \<open>p\<close> is
  fulfilled with the decision \<^verbatim>\<open>{action: 'accept', content: state}\<close>, that decision
  is the one response sent, the slot is emptied, and nothing else changes.
  \<^verbatim>\<open>handleSubmit\<close> returns in every case: no validation error reaches its caller.
\<close>

theorem handleSubmit_fail_open:
  assumes "elicitationRequest w = Some r"
    and "elicitationResolver w = Some p"
    and "elicitation_modal w = Modal m"
    and "p < length (promises w)"
    and "promises w ! p = Pending"
  shows "schema m = requestedSchema r
    \<and> fst (handleSubmit compile (schema m) state (onSubmit m) w) =
        Compile (schema_or_empty (requestedSchema r)) #
          (case compile (schema_or_empty (requestedSchema r)) of
             Inl e \<Rightarrow> []
           | Inr validate \<Rightarrow> [Validate state])
    \<and> schema_or_empty None = JObject []
    \<and> schema_or_empty (Some JNull) = JObject []
    \<and> schema_or_empty (Some (JObject fs)) = JObject fs
    \<and> snd (handleSubmit compile (schema m) state (onSubmit m) w) =
        w\<lparr> promises := (promises w)
               [p := Fulfilled (JObject [(''action'', JString ''accept''),
                                         (''content'', state)])],
           responses := responses w @
               [(p, JObject [(''action'', JString ''accept''), (''content'', state)])],
           elicitationRequest := None,
           elicitationResolver := None \<rparr>"
proof -
  note cb = modal_callbacks [OF assms(1,2,3)]
  have "snd (handleSubmit compile (schema m) state (onSubmit m) w) =
          resolver_fn p (accept_response state) w"
    by (simp add: handleSubmit_world cb(2))
  then have world: "snd (handleSubmit compile (schema m) state (onSubmit m) w) =
        w\<lparr> promises := (promises w)
               [p := Fulfilled (JObject [(''action'', JString ''accept''),
                                         (''content'', state)])],
           responses := responses w @
               [(p, JObject [(''action'', JString ''accept''), (''content'', state)])],
           elicitationRequest := None,
           elicitationResolver := None \<rparr>"
    by (simp add: resolver_fn_pending [OF assms(4,5)] accept_response_def)
  have calls: "fst (handleSubmit compile (schema m) state (onSubmit m) w) =
        Compile (schema_or_empty (requestedSchema r)) #
          (case compile (schema_or_empty (requestedSchema r)) of
             Inl e \<Rightarrow> []
           | Inr validate \<Rightarrow> [Validate state])"
    by (simp only: handleSubmit_calls cb(1))
  have empty: "schema_or_empty None = JObject []"
    and null: "schema_or_empty (Some JNull) = JObject []"
    and object: "schema_or_empty (Some (JObject fs)) = JObject fs"
    by (simp_all add: schema_or_empty_def)
  from cb(1) calls empty null object world show ?thesis
    by (intro conjI)
qed

text \<open>
  The theorem at \<open>form_world\<close>, whose request asks for a name, with a validator that
  rejects and with one that throws.
\<close>

theorem handleSubmit_fail_open_witness:
  "elicitationRequest form_world = Some request_C
    \<and> elicitationResolver form_world = Some 0
    \<and> elicitation_modal form_world = Modal form_modal
    \<and> 0 < length (promises form_world)
    \<and> promises form_world ! 0 = Pending
    \<and> handleSubmit ajv_rejecting (schema form_modal) (JObject [(''name'', JString [])])
        (onSubmit form_modal) form_world
        = ([Compile name_schema, Validate (JObject [(''name'', JString [])])],
           form_world
             \<lparr> promises := [Fulfilled (JObject [(''action'', JString ''accept''),
                                                (''content'', JObject [(''name'', JString [])])])],
               responses := [(0, JObject [(''action'', JString ''accept''),
                                          (''content'', JObject [(''name'', JString [])])])],
               elicitationRequest := None,
               elicitationResolver := None \<rparr>)
    \<and> handleSubmit ajv_throwing (schema form_modal) (JObject [(''name'', JString [])])
        (onSubmit form_modal) form_world
        = ([Compile name_schema],
           form_world
             \<lparr> promises := [Fulfilled (JObject [(''action'', JString ''accept''),
                                                (''content'', JObject [(''name'', JString [])])])],
               responses := [(0, JObject [(''action'', JString ''accept''),
                                          (''content'', JObject [(''name'', JString [])])])],
               elicitationRequest := None,
               elicitationResolver := None \<rparr>)"
proof -
  have s: "schema_or_empty (requestedSchema request_C) = name_schema"
    by (simp add: schema_or_empty_def request_C_def name_schema_def)
  have p: "promises form_world = [Pending]" and rs: "responses form_world = []"
    by (simp_all add: form_world_eq)
  note rejecting = handleSubmit_fail_open [OF form_world_pending(1,2) form_world_modal
      form_world_pending(3,4), of ajv_rejecting "JObject [(''name'', JString [])]"]
  note throwing = handleSubmit_fail_open [OF form_world_pending(1,2) form_world_modal
      form_world_pending(3,4), of ajv_throwing "JObject [(''name'', JString [])]"]
  have rej_calls: "fst (handleSubmit ajv_rejecting (schema form_modal)
        (JObject [(''name'', JString [])]) (onSubmit form_modal) form_world)
        = [Compile name_schema, Validate (JObject [(''name'', JString [])])]"
    using rejecting [THEN conjunct2, THEN conjunct1]
    by (simp add: s ajv_rejecting_def)
  have rej_world: "snd (handleSubmit ajv_rejecting (schema form_modal)
        (JObject [(''name'', JString [])]) (onSubmit form_modal) form_world)
        = form_world
             \<lparr> promises := [Fulfilled (JObject [(''action'', JString ''accept''),
                                                (''content'', JObject [(''name'', JString [])])])],
               responses := [(0, JObject [(''action'', JString ''accept''),
                                          (''content'', JObject [(''name'', JString [])])])],
               elicitationRequest := None,
               elicitationResolver := None \<rparr>"
    using rejecting [THEN conjunct2, THEN conjunct2, THEN conjunct2, THEN conjunct2,
        THEN conjunct2]
    by (simp add: p rs)
  have thr_calls: "fst (handleSubmit ajv_throwing (schema form_modal)
        (JObject [(''name'', JString [])]) (onSubmit form_modal) form_world)
        = [Compile name_schema]"
    using throwing [THEN conjunct2, THEN conjunct1]
    by (simp add: s ajv_throwing_def)
  have thr_world: "snd (handleSubmit ajv_throwing (schema form_modal)
        (JObject [(''name'', JString [])]) (onSubmit form_modal) form_world)
        = form_world
             \<lparr> promises := [Fulfilled (JObject [(''action'', JString ''accept''),
                                                (''content'', JObject [(''name'', JString [])])])],
               responses := [(0, JObject [(''action'', JString ''accept''),
                                          (''content'', JObject [(''name'', JString [])])])],
               elicitationRequest := None,
               elicitationResolver := None \<rparr>"
    using throwing [THEN conjunct2, THEN conjunct2, THEN conjunct2, THEN conjunct2,
        THEN conjunct2]
    by (simp add: p rs)
  from form_world_pending form_world_modal rej_calls rej_world thr_calls thr_world
  show ?thesis
    by (simp only: prod_eq_iff fst_conv snd_conv simp_thms)
qed

subsection \<open>C8: the resource-list-changed notification\<close>

text \<open>
  C8. Handling a resource-list-changed notification on client \<open>c\<close> issues exactly one
  request, \<^verbatim>\<open>resources/list\<close> on \<open>c\<close>, however that request ends. The handler's
  promise is fulfilled in every case, so nothing is propagated, and the client, the
  transport, \<^verbatim>\<open>isConnected\<close> and the session identifier are unchanged: a ready
  session stays ready. When the request fails with \<open>e\<close>, \<open>e\<close> is written to the
  console as a warning.
\<close>

theorem resourceListChanged_one_request:
  "requests (snd (resourceListChanged_handler c outcome w)) =
      requests w @ [\<lparr> on_client = c, rpc_method = ''resources/list'', params = JObject [],
                       resultSchema = ListResourcesResultSchema \<rparr>]
    \<and> fst (resourceListChanged_handler c outcome w) = Fulfilled ()
    \<and> client (snd (resourceListChanged_handler c outcome w)) = client w
    \<and> transport (snd (resourceListChanged_handler c outcome w)) = transport w
    \<and> isConnected (snd (resourceListChanged_handler c outcome w)) = isConnected w
    \<and> sessionId (snd (resourceListChanged_handler c outcome w)) = sessionId w
    \<and> closes (snd (resourceListChanged_handler c outcome w)) = closes w
    \<and> fst (resourceListChanged_handler c (Inl e) w) = Fulfilled ()
    \<and> console (snd (resourceListChanged_handler c (Inl e) w)) =
        console w @ [ConsoleWarn ''Failed to list resources after notification'' e]"
  by (simp add: resourceListChanged_handler_def Let_def split: sum.splits)

subsection \<open>C9: deciding twice\<close>




subsection \<open>C10: the default context\<close>

text \<open>
  C10. A consumer that calls \<^verbatim>\<open>useMCP\<close> with no provider above it gets the default
  context: client and transport are null, \<^verbatim>\<open>isConnected\<close> is false, there is no
  session identifier, \<^verbatim>\<open>connect\<close> and \<^verbatim>\<open>disconnect\<close> return at once with
  \<^verbatim>\<open>undefined\<close>, and each of the six protocol operations returns the empty object
  \<^verbatim>\<open>{}\<close>; none of them throws and none changes the world.
\<close>

theorem useMCP_default_context:
  "ctx_client (useMCP None) = None
    \<and> ctx_transport (useMCP None) = None
    \<and> ctx_isConnected (useMCP None) = False
    \<and> ctx_sessionId (useMCP None) = None
    \<and> ctx_connect (useMCP None) w = (Returned, w)
    \<and> ctx_disconnect (useMCP None) close_outcome w = (Fulfilled (), w)
    \<and> ctx_listTools (useMCP None) w = (Returns (Value (JObject [])), w)
    \<and> ctx_listPrompts (useMCP None) w = (Returns (Value (JObject [])), w)
    \<and> ctx_getPrompt (useMCP None) name pargs w = (Returns (Value (JObject [])), w)
    \<and> ctx_listResources (useMCP None) w = (Returns (Value (JObject [])), w)
    \<and> ctx_readResource (useMCP None) uri w = (Returns (Value (JObject [])), w)
    \<and> ctx_callTool (useMCP None) name targs w = (Returns (Value (JObject [])), w)"
  by (simp add: useMCP_def MCPContext_default_def)

end
